theory Spec2Isabelle
  imports Main "HOL-Library.AList"
begin

section \<open>Values, objects and the session store\<close>

text \<open>
  The model follows \<^verbatim>\<open>src/src/streamlit_meta_state/core.py\<close>. Python values are a
  datatype; objects live in a heap and are referred to by their address, so that identity
  (\<^verbatim>\<open>is\<close>) is equality of addresses. A \<^verbatim>\<open>SessionVar\<close> descriptor has a single field,
  its \<^verbatim>\<open>name\<close>, and is represented by it. A \<^verbatim>\<open>SessionVar._Wrapper\<close> is the tuple of the four
  fields its \<^verbatim>\<open>__init__\<close> stores: \<^verbatim>\<open>_value\<close>, \<^verbatim>\<open>_key\<close>, \<^verbatim>\<open>_descriptor\<close>, \<^verbatim>\<open>_instance\<close>.
  Of the floats the model has \<^verbatim>\<open>float("nan")\<close> only, the value that is not equal to itself;
  dictionaries and objects with operators of their own are outside the value universe.
\<close>

datatype pyerror =
    KeyError
  | StreamlitAPIException
  | AttributeError
  | TypeError
  | IndexError
  | RecursionError
  | NotModelled

datatype pyval =
    PNone
  | PBool bool
  | PInt int
  | PNaN
  | PStr string
  | PList "pyval list"
  | PObj nat
  | PDescr string
  | PWrapper pyval string string nat

datatype pyclass =
  PyClass (cls_module: string) (cls_name: string) (cls_bases: "pyclass list")
    (cls_dict: "(string \<times> pyval) list")

record pyobj =
  obj_class :: pyclass
  obj_dict :: "string \<rightharpoonup> pyval"

text \<open>
  The state every operation threads: the session store that \<^verbatim>\<open>get_session_state()\<close>
  returns (membership test, lookup and assignment by key), and the heap of objects.
\<close>

record pystate =
  session :: "string \<rightharpoonup> pyval"
  heap :: "pyobj list"

type_synonym 'a result = "(pyerror + 'a) \<times> pystate"

definition lookup_obj :: "pystate \<Rightarrow> nat \<Rightarrow> pyobj option" where
  "lookup_obj st a = (if a < length (heap st) then Some (heap st ! a) else None)"

text \<open>\<^verbatim>\<open>instance.__dict__[name] = value\<close>\<close>

definition set_instance_dict :: "nat \<Rightarrow> string \<Rightarrow> pyval \<Rightarrow> pystate \<Rightarrow> pystate" where
  "set_instance_dict a n v st =
     st\<lparr>heap := (heap st)[a := (heap st ! a)\<lparr>obj_dict := (obj_dict (heap st ! a))(n \<mapsto> v)\<rparr>]\<rparr>"

text \<open>
  Attribute lookup on a class: the class's own dictionary first, then its bases from left
  to right (Python's method resolution order for single inheritance and for hierarchies
  without a diamond).
\<close>

fun class_lookup :: "pyclass \<Rightarrow> string \<Rightarrow> pyval option"
  and bases_lookup :: "pyclass list \<Rightarrow> string \<Rightarrow> pyval option" where
  "class_lookup (PyClass m n bs d) x =
     (case map_of d x of Some v \<Rightarrow> Some v | None \<Rightarrow> bases_lookup bs x)"
| "bases_lookup [] x = None"
| "bases_lookup (b # bs) x =
     (case class_lookup b x of Some v \<Rightarrow> Some v | None \<Rightarrow> bases_lookup bs x)"

text \<open>
  The \<^verbatim>\<open>name\<close> of the \<^verbatim>\<open>SessionVar\<close> that attribute lookup on the class finds under a name,
  if it finds one there.
\<close>

definition descriptor_at :: "pyclass \<Rightarrow> string \<Rightarrow> string option" where
  "descriptor_at cls item =
     (case class_lookup cls item of Some (PDescr d) \<Rightarrow> Some d | _ \<Rightarrow> None)"

section \<open>Text of a value\<close>

text \<open>
  What an f-string writes for a value. For a list, an object or a descriptor the text
  depends on \<^verbatim>\<open>repr\<close> and on memory addresses and is not modelled (\<open>None\<close>). A wrapper's
  \<^verbatim>\<open>__str__\<close> returns \<^verbatim>\<open>str(self._value)\<close>.
\<close>

function digits :: "nat \<Rightarrow> string" where
  "digits n = (if n < 10 then [char_of (48 + n)] else digits (n div 10) @ [char_of (48 + n mod 10)])"
  by pat_completeness auto
termination
  by (relation "measure id") auto

fun py_str :: "pyval \<Rightarrow> string option" where
  "py_str PNone = Some ''None''"
| "py_str (PBool b) = Some (if b then ''True'' else ''False'')"
| "py_str (PInt i) = Some (if i < 0 then CHR ''-'' # digits (nat (- i)) else digits (nat i))"
| "py_str PNaN = Some ''nan''"
| "py_str (PStr s) = Some s"
| "py_str (PWrapper v k d i) = py_str v"
| "py_str _ = None"

section \<open>SessionVar\<close>

text \<open>
  \<^verbatim>\<open>instance.__instance_key__\<close> as \<^verbatim>\<open>_make_key\<close> reads it. When the class binds that name to
  a \<^verbatim>\<open>SessionVar\<close>, the read enters \<^verbatim>\<open>__get__\<close>, which calls \<^verbatim>\<open>_make_key\<close> again, and so on:
  Python ends the recursion with \<^verbatim>\<open>RecursionError\<close>. Otherwise the instance dictionary is
  read, then the class.
\<close>

definition instance_key_attr :: "pyobj \<Rightarrow> pyerror + pyval" where
  "instance_key_attr ob =
     (case descriptor_at (obj_class ob) ''__instance_key__'' of
        Some d \<Rightarrow> Inl RecursionError
      | None \<Rightarrow>
         (case obj_dict ob ''__instance_key__'' of
            Some v \<Rightarrow> Inr v
          | None \<Rightarrow>
             (case class_lookup (obj_class ob) ''__instance_key__'' of
                Some v \<Rightarrow> Inr v
              | None \<Rightarrow> Inl AttributeError)))"

text \<open>\<^verbatim>\<open>SessionVar._make_key\<close>; the descriptor is given by its \<^verbatim>\<open>name\<close>.\<close>

definition make_key :: "string \<Rightarrow> nat \<Rightarrow> pystate \<Rightarrow> pyerror + string" where
  "make_key name inst st =
     (case lookup_obj st inst of
        None \<Rightarrow> Inl NotModelled
      | Some ob \<Rightarrow>
         (case instance_key_attr ob of
            Inl e \<Rightarrow> Inl e
          | Inr v \<Rightarrow>
             (case py_str v of
                None \<Rightarrow> Inl NotModelled
              | Some s \<Rightarrow> Inr (s @ ''.'' @ name))))"

text \<open>
  \<^verbatim>\<open>SessionVar.__get__\<close>. The predicate \<open>valid\<close> is the key rule of the host framework:
  \<^verbatim>\<open>require_valid_user_key\<close> raises where it is false.
\<close>

definition sessionvar_get ::
  "(string \<Rightarrow> bool) \<Rightarrow> string \<Rightarrow> nat option \<Rightarrow> pystate \<Rightarrow> pyval result" where
  "sessionvar_get valid name instance st =
     (case instance of
        None \<Rightarrow> (Inr (PDescr name), st)
      | Some inst \<Rightarrow>
         (case make_key name inst st of
            Inl e \<Rightarrow> (Inl e, st)
          | Inr key \<Rightarrow>
             if \<not> valid key then (Inl StreamlitAPIException, st)
             else
               let value = (case session st key of Some v \<Rightarrow> v | None \<Rightarrow> PNone);
                   wrapped = PWrapper value key name inst
               in (Inr wrapped, set_instance_dict inst name wrapped st)))"

text \<open>\<^verbatim>\<open>SessionVar.__set__\<close>\<close>

definition sessionvar_set ::
  "(string \<Rightarrow> bool) \<Rightarrow> string \<Rightarrow> nat \<Rightarrow> pyval \<Rightarrow> pystate \<Rightarrow> unit result" where
  "sessionvar_set valid name inst value st =
     (case make_key name inst st of
        Inl e \<Rightarrow> (Inl e, st)
      | Inr key \<Rightarrow>
         if \<not> valid key then (Inl StreamlitAPIException, st)
         else
           let wrapped = PWrapper value key name inst;
               st1 = set_instance_dict inst name wrapped st
           in (Inr (), st1\<lparr>session := (session st1)(key \<mapsto> value)\<rparr>))"

section \<open>Attribute access on instances\<close>

text \<open>
  \<^verbatim>\<open>instance.item\<close> and \<^verbatim>\<open>instance.item = v\<close> for an object of the heap: a \<^verbatim>\<open>SessionVar\<close> found
  on the class is a data descriptor and wins over the instance dictionary; any other
  name is read from the instance dictionary, then from the class, and written to the
  instance dictionary. The attributes that every object has (\<^verbatim>\<open>__dict__\<close>, \<^verbatim>\<open>__class__\<close> and
  the like) are not modelled.
\<close>

definition obj_getattr :: "(string \<Rightarrow> bool) \<Rightarrow> nat \<Rightarrow> string \<Rightarrow> pystate \<Rightarrow> pyval result" where
  "obj_getattr valid inst item st =
     (case lookup_obj st inst of
        None \<Rightarrow> (Inl NotModelled, st)
      | Some ob \<Rightarrow>
         (case descriptor_at (obj_class ob) item of
            Some d \<Rightarrow> sessionvar_get valid d (Some inst) st
          | None \<Rightarrow>
             (case obj_dict ob item of
                Some v \<Rightarrow> (Inr v, st)
              | None \<Rightarrow>
                 (case class_lookup (obj_class ob) item of
                    Some v \<Rightarrow> (Inr v, st)
                  | None \<Rightarrow> (Inl AttributeError, st)))))"

definition obj_setattr ::
  "(string \<Rightarrow> bool) \<Rightarrow> nat \<Rightarrow> string \<Rightarrow> pyval \<Rightarrow> pystate \<Rightarrow> unit result" where
  "obj_setattr valid inst item v st =
     (case lookup_obj st inst of
        None \<Rightarrow> (Inl NotModelled, st)
      | Some ob \<Rightarrow>
         (case descriptor_at (obj_class ob) item of
            Some d \<Rightarrow> sessionvar_set valid d inst v st
          | None \<Rightarrow> (Inr (), set_instance_dict inst item v st)))"

section \<open>MetaSessionState\<close>

text \<open>\<^verbatim>\<open>cls.__new__(cls)\<close>: a fresh object of the class with an empty dictionary.\<close>

definition object_new :: "pyclass \<Rightarrow> pystate \<Rightarrow> nat \<times> pystate" where
  "object_new cls st =
     (length (heap st), st\<lparr>heap := heap st @ [\<lparr>obj_class = cls, obj_dict = Map.empty\<rparr>]\<rparr>)"

text \<open>\<^verbatim>\<open>state[key]\<close>\<close>

definition state_getitem :: "pystate \<Rightarrow> string \<Rightarrow> pyval result" where
  "state_getitem st key =
     (case session st key of Some v \<Rightarrow> (Inr v, st) | None \<Rightarrow> (Inl KeyError, st))"

text \<open>
  \<^verbatim>\<open>MetaSessionState.__call__\<close>. Keyword arguments are an association list; \<open>init\<close> is the
  class's \<^verbatim>\<open>__init__\<close>, which receives the instance, the positional arguments and the
  keyword arguments left after \<^verbatim>\<open>kwargs.pop("instance_key")\<close>.
\<close>

type_synonym initializer =
  "nat \<Rightarrow> pyval list \<Rightarrow> (string \<times> pyval) list \<Rightarrow> pystate \<Rightarrow> unit result"

definition meta_call ::
  "(string \<Rightarrow> bool) \<Rightarrow> pyclass \<Rightarrow> initializer \<Rightarrow> pyval list \<Rightarrow> (string \<times> pyval) list
     \<Rightarrow> pystate \<Rightarrow> pyval result" where
  "meta_call valid cls init args kwargs st =
     (case map_of kwargs ''instance_key'' of
        None \<Rightarrow> (Inl KeyError, st)
      | Some ident \<Rightarrow>
         (let kwargs' = filter (\<lambda>p. fst p \<noteq> ''instance_key'') kwargs in
          case py_str ident of
            None \<Rightarrow> (Inl NotModelled, st)
          | Some s \<Rightarrow>
             (let instance_key = cls_module cls @ ''_'' @ cls_name cls @ ''_'' @ s in
              if \<not> valid instance_key then (Inl StreamlitAPIException, st)
              else if session st instance_key = None then
                (case object_new cls st of
                   (inst, st1) \<Rightarrow>
                    (case obj_setattr valid inst ''__instance_key__'' (PStr instance_key) st1 of
                       (Inl e, st2) \<Rightarrow> (Inl e, st2)
                     | (Inr u, st2) \<Rightarrow>
                        (case init inst args kwargs' st2 of
                           (Inl e, st3) \<Rightarrow> (Inl e, st3)
                         | (Inr u', st3) \<Rightarrow>
                            state_getitem
                              (st3\<lparr>session := (session st3)(instance_key \<mapsto> PObj inst)\<rparr>)
                              instance_key)))
              else state_getitem st instance_key)))"

text \<open>
  The class body handed to \<^verbatim>\<open>MetaSessionState.__new__\<close> as \<^verbatim>\<open>class_dict\<close>: its \<^verbatim>\<open>__module__\<close>
  entry, the names of its \<^verbatim>\<open>__annotations__\<close> entry in their order (\<open>None\<close> when the body
  has no annotation, so that \<^verbatim>\<open>class_dict.get("__annotations__", {})\<close> is empty), and the
  other entries.
\<close>

record class_body =
  cb_module :: string
  cb_annotations :: "string list option"
  cb_attrs :: "(string \<times> pyval) list"

text \<open>\<^verbatim>\<open>super().__new__(mcs, name, bases, class_dict)\<close>\<close>

definition type_new :: "string \<Rightarrow> pyclass list \<Rightarrow> class_body \<Rightarrow> pyclass" where
  "type_new name bases class_dict =
     PyClass (cb_module class_dict) name bases (cb_attrs class_dict)"

text \<open>\<^verbatim>\<open>setattr(new_class, var_name, value)\<close>\<close>

definition class_setattr :: "pyclass \<Rightarrow> string \<Rightarrow> pyval \<Rightarrow> pyclass" where
  "class_setattr cls var_name v =
     PyClass (cls_module cls) (cls_name cls) (cls_bases cls) (AList.update var_name v (cls_dict cls))"

text \<open>The names that \<^verbatim>\<open>class_dict.get("__annotations__", {})\<close> iterates over.\<close>

definition annotated :: "class_body \<Rightarrow> string list" where
  "annotated class_dict =
     (case cb_annotations class_dict of None \<Rightarrow> [] | Some names \<Rightarrow> names)"

text \<open>\<^verbatim>\<open>MetaSessionState.__new__\<close>\<close>

definition meta_new :: "string \<Rightarrow> pyclass list \<Rightarrow> class_body \<Rightarrow> pyclass" where
  "meta_new name bases class_dict =
     foldl (\<lambda>new_class var_name. class_setattr new_class var_name (PDescr var_name))
       (type_new name bases class_dict) (annotated class_dict)"

section \<open>SessionVar._Wrapper\<close>

text \<open>
  The operators of Python on the values of the model. A wrapper is a value too (it is
  what a read of a field returns and what the instance dictionary caches), and its case
  in each operator is the wrapper's method of the source: \<^verbatim>\<open>__eq__\<close>, \<^verbatim>\<open>__len__\<close>,
  \<^verbatim>\<open>__getitem__\<close>, \<^verbatim>\<open>__iter__\<close>, \<^verbatim>\<open>__getattr__\<close> and \<^verbatim>\<open>__setattr__\<close>.
\<close>

text \<open>
  \<^verbatim>\<open>a == b\<close>. \<^verbatim>\<open>_Wrapper.__eq__\<close> returns \<^verbatim>\<open>self._value == other\<close>; with a wrapper on the right
  only, the left operand's own comparison does not know the wrapper and Python calls the
  wrapper's \<^verbatim>\<open>__eq__\<close> with the operands swapped. NaN is equal to nothing, itself included.
  Two lists are equal when they are as long and each item of the one is the same object
  as, or equal to, the item of the other at its place; the model has no identity for the
  items and takes equal values for the same object, which is exact when a list is
  compared with itself. Objects compare by identity; descriptors compare by their name,
  which is identity among the descriptors of one class.
\<close>

function (sequential) py_eq :: "pyval \<Rightarrow> pyval \<Rightarrow> bool" where
  "py_eq (PWrapper v k d i) other = py_eq v other"
| "py_eq other (PWrapper v k d i) = py_eq v other"
| "py_eq PNone PNone = True"
| "py_eq (PBool a) (PBool b) = (a = b)"
| "py_eq (PBool a) (PInt b) = ((if a then 1 else 0) = b)"
| "py_eq (PInt a) (PBool b) = (a = (if b then 1 else 0))"
| "py_eq (PInt a) (PInt b) = (a = b)"
| "py_eq (PStr a) (PStr b) = (a = b)"
| "py_eq (PList xs) (PList ys) = list_all2 (\<lambda>x y. x = y \<or> py_eq x y) xs ys"
| "py_eq (PObj a) (PObj b) = (a = b)"
| "py_eq (PDescr a) (PDescr b) = (a = b)"
| "py_eq _ _ = False"
  by pat_completeness auto
termination
proof (relation "measure (\<lambda>(a, b). size a + size b)", goal_cases)
  case (11 xs ys z yb)
  have "size z \<le> size_list size xs" and "size yb \<le> size_list size ys"
    using 11 by (auto intro: size_list_estimation')
  then show ?case by simp
qed auto

text \<open>The value under all the wrappers around it.\<close>

fun unwrap :: "pyval \<Rightarrow> pyval" where
  "unwrap (PWrapper v k d i) = unwrap v"
| "unwrap v = v"

text \<open>\<^verbatim>\<open>len(v)\<close>; \<^verbatim>\<open>_Wrapper.__len__\<close> returns \<^verbatim>\<open>len(self._value)\<close>.\<close>

fun py_len :: "pyval \<Rightarrow> pyerror + nat" where
  "py_len (PWrapper v k d i) = py_len v"
| "py_len (PStr s) = Inr (length s)"
| "py_len (PList xs) = Inr (length xs)"
| "py_len _ = Inl TypeError"

text \<open>A sequence read at an integer position; a negative position counts from the end.\<close>

definition seq_at :: "'a list \<Rightarrow> int \<Rightarrow> pyerror + 'a" where
  "seq_at xs i =
     (if 0 \<le> i \<and> i < int (length xs) then Inr (xs ! nat i)
      else if i < 0 \<and> - int (length xs) \<le> i then Inr (xs ! nat (int (length xs) + i))
      else Inl IndexError)"

text \<open>
  \<^verbatim>\<open>v[item]\<close> for an integer \<^verbatim>\<open>item\<close> (slices are not modelled); \<^verbatim>\<open>_Wrapper.__getitem__\<close>
  returns \<^verbatim>\<open>self._value[item]\<close>.
\<close>

fun py_getitem :: "pyval \<Rightarrow> pyval \<Rightarrow> pyerror + pyval" where
  "py_getitem (PWrapper v k d i) item = py_getitem v item"
| "py_getitem (PList xs) (PInt n) = seq_at xs n"
| "py_getitem (PList xs) (PBool b) = seq_at xs (if b then 1 else 0)"
| "py_getitem (PStr s) (PInt n) = map_sum id (\<lambda>c. PStr [c]) (seq_at s n)"
| "py_getitem (PStr s) (PBool b) = map_sum id (\<lambda>c. PStr [c]) (seq_at s (if b then 1 else 0))"
| "py_getitem _ _ = Inl TypeError"

text \<open>
  \<^verbatim>\<open>iter(v)\<close>, as the list of the items the iterator yields; \<^verbatim>\<open>_Wrapper.__iter__\<close> returns
  \<^verbatim>\<open>iter(self._value)\<close>.
\<close>

fun py_iter :: "pyval \<Rightarrow> pyerror + pyval list" where
  "py_iter (PWrapper v k d i) = py_iter v"
| "py_iter (PList xs) = Inr xs"
| "py_iter (PStr s) = Inr (map (\<lambda>c. PStr [c]) s)"
| "py_iter _ = Inl TypeError"

text \<open>
  The names \<^verbatim>\<open>_Wrapper.__getattr__\<close> and \<^verbatim>\<open>_Wrapper.__setattr__\<close> test for, and the other names
  that the ordinary lookup finds on a wrapper before \<^verbatim>\<open>__getattr__\<close> is tried: the methods
  of the class body and the attributes every object has. Their values are bound methods
  and type objects, which are not values of the model.
\<close>

definition wrapper_internal :: "string list" where
  "wrapper_internal = [''_value'', ''_key'', ''_descriptor'', ''_instance'']"

definition wrapper_class_names :: "string list" where
  "wrapper_class_names =
     [''__init__'', ''__getattr__'', ''__setattr__'', ''__str__'', ''__repr__'', ''__call__'',
      ''__eq__'', ''__getitem__'', ''__setitem__'', ''__iter__'', ''__len__'',
      ''__class__'', ''__dict__'', ''__doc__'', ''__module__'', ''__weakref__'', ''__hash__'',
      ''__delattr__'', ''__dir__'', ''__format__'', ''__ge__'', ''__getattribute__'',
      ''__getstate__'', ''__gt__'', ''__init_subclass__'', ''__le__'', ''__lt__'', ''__ne__'',
      ''__new__'', ''__reduce__'', ''__reduce_ex__'', ''__sizeof__'', ''__subclasshook__'']"

text \<open>
  \<^verbatim>\<open>getattr(v, item)\<close>. On a wrapper the ordinary lookup comes first: the property \<^verbatim>\<open>key\<close> of
  the class, then the four fields that \<^verbatim>\<open>__init__\<close> stored in the instance dictionary,
  then the other names of the class. Only a name found nowhere reaches \<^verbatim>\<open>__getattr__\<close>,
  whose test for the four fields then fails over to \<^verbatim>\<open>object.__getattribute__\<close>, and which
  otherwise returns \<^verbatim>\<open>getattr(self._value, item)\<close>. Of the attributes of the builtin types
  the model has the four data attributes of \<^verbatim>\<open>int\<close> and \<^verbatim>\<open>bool\<close>; the others are methods or belong
  to values the model does not have.
\<close>

fun py_getattr :: "(string \<Rightarrow> bool) \<Rightarrow> pyval \<Rightarrow> string \<Rightarrow> pystate \<Rightarrow> pyval result" where
  "py_getattr valid (PWrapper v k d i) item st =
     (if item = ''key'' then (Inr (PStr k), st)
      else if item = ''_value'' then (Inr v, st)
      else if item = ''_key'' then (Inr (PStr k), st)
      else if item = ''_descriptor'' then (Inr (PDescr d), st)
      else if item = ''_instance'' then (Inr (PObj i), st)
      else if item \<in> set wrapper_class_names then (Inl NotModelled, st)
      else if item \<in> set wrapper_internal then (Inl AttributeError, st)
      else py_getattr valid v item st)"
| "py_getattr valid (PObj a) item st = obj_getattr valid a item st"
| "py_getattr valid (PInt n) item st =
     (if item = ''real'' \<or> item = ''numerator'' then (Inr (PInt n), st)
      else if item = ''imag'' then (Inr (PInt 0), st)
      else if item = ''denominator'' then (Inr (PInt 1), st)
      else (Inl NotModelled, st))"
| "py_getattr valid (PBool b) item st =
     (if item = ''real'' \<or> item = ''numerator'' then (Inr (PInt (if b then 1 else 0)), st)
      else if item = ''imag'' then (Inr (PInt 0), st)
      else if item = ''denominator'' then (Inr (PInt 1), st)
      else (Inl NotModelled, st))"
| "py_getattr valid v item st = (Inl NotModelled, st)"

text \<open>
  \<^verbatim>\<open>setattr(target, name, value)\<close>. \<^verbatim>\<open>_Wrapper.__setattr__\<close> receives every assignment to an
  attribute of a wrapper, the property \<^verbatim>\<open>key\<close> included: it raises for the four fields and
  otherwise calls \<^verbatim>\<open>setattr(self._value, name, value)\<close>. The values of the builtin types
  take no attribute; a descriptor would, which its representation by a name cannot show.
\<close>

fun py_setattr ::
  "(string \<Rightarrow> bool) \<Rightarrow> pyval \<Rightarrow> string \<Rightarrow> pyval \<Rightarrow> pystate \<Rightarrow> unit result" where
  "py_setattr valid (PWrapper v k d i) name value st =
     (if name \<in> set wrapper_internal then (Inl AttributeError, st)
      else py_setattr valid v name value st)"
| "py_setattr valid (PObj a) name value st = obj_setattr valid a name value st"
| "py_setattr valid (PDescr d) name value st = (Inl NotModelled, st)"
| "py_setattr valid v name value st = (Inl AttributeError, st)"

section \<open>Predicates of the statements and a class for the examples\<close>

text \<open>The \<^verbatim>\<open>__instance_key__\<close> entry of the instance dictionary of the object at an address.\<close>

definition instance_key_of :: "pystate \<Rightarrow> nat \<Rightarrow> pyval option" where
  "instance_key_of st a =
     (case lookup_obj st a of None \<Rightarrow> None | Some ob \<Rightarrow> obj_dict ob ''__instance_key__'')"

text \<open>
  Every object of the first state is an object of the second, at the same address, of
  the same class and with the same \<^verbatim>\<open>__instance_key__\<close>.
\<close>

definition same_stamp :: "pyobj \<Rightarrow> pyobj \<Rightarrow> bool" where
  "same_stamp ob ob' =
     (obj_class ob' = obj_class ob \<and>
      obj_dict ob' ''__instance_key__'' = obj_dict ob ''__instance_key__'')"

definition keeps_instance_keys :: "pystate \<Rightarrow> pystate \<Rightarrow> bool" where
  "keeps_instance_keys s s' =
     (length (heap s) \<le> length (heap s') \<and>
      list_all2 same_stamp (heap s) (take (length (heap s)) (heap s')))"

text \<open>
  The state in which \<^verbatim>\<open>MetaSessionState.__call__\<close> runs the initializer of a class that binds
  no descriptor to \<^verbatim>\<open>__instance_key__\<close>: the new object is allocated and carries its instance
  key.
\<close>

definition stamped :: "pyclass \<Rightarrow> string \<Rightarrow> pystate \<Rightarrow> pystate" where
  "stamped cls instance_key st =
     set_instance_dict (length (heap st)) ''__instance_key__'' (PStr instance_key)
       (snd (object_new cls st))"

text \<open>
  The run of the initializer in a call that constructs leaves the class and the
  \<^verbatim>\<open>__instance_key__\<close> of every object as they are: the \<^verbatim>\<open>__init__\<close> assigns to no
  \<^verbatim>\<open>__instance_key__\<close> and to no \<^verbatim>\<open>__class__\<close>.
\<close>

definition init_run_keeps ::
  "initializer \<Rightarrow> pyclass \<Rightarrow> string \<Rightarrow> pyval list \<Rightarrow> (string \<times> pyval) list \<Rightarrow> pystate \<Rightarrow> bool"
  where
  "init_run_keeps init cls instance_key args kwargs st =
     keeps_instance_keys (stamped cls instance_key st)
       (snd (init (length (heap st)) args (filter (\<lambda>p. fst p \<noteq> ''instance_key'') kwargs)
          (stamped cls instance_key st)))"

text \<open>
  What the session store holds under a key is an instance that carries this very key as
  its \<^verbatim>\<open>__instance_key__\<close>, as the instance does that was constructed under the key.
\<close>

definition holds_own_instance :: "string \<Rightarrow> pystate \<Rightarrow> bool" where
  "holds_own_instance instance_key st =
     (case session st instance_key of
        Some (PObj a) \<Rightarrow>
          (case lookup_obj st a of
             None \<Rightarrow> False
           | Some ob \<Rightarrow> instance_key_attr ob = Inr (PStr instance_key))
      | _ \<Rightarrow> False)"

text \<open>
  A call of the class in good order: its instance key is absent from the store and the
  run of the initializer keeps the instance keys, or the store holds under the key the
  instance that carries it.
\<close>

definition call_in_order ::
  "initializer \<Rightarrow> pyclass \<Rightarrow> string \<Rightarrow> pyval list \<Rightarrow> (string \<times> pyval) list \<Rightarrow> pystate \<Rightarrow> bool"
  where
  "call_in_order init cls instance_key args kwargs st =
     (if session st instance_key = None then init_run_keeps init cls instance_key args kwargs st
      else holds_own_instance instance_key st)"

text \<open>
  \<^verbatim>\<open>object.__init__\<close>, the initializer of a class that defines none: it takes no argument
  beyond the instance.
\<close>

definition object_init :: initializer where
  "object_init inst args kwargs st =
     (if args = [] \<and> kwargs = [] then (Inr (), st) else (Inl TypeError, st))"

text \<open>
  A key rule for the examples, the one of the host framework's \<^verbatim>\<open>require_valid_user_key\<close>:
  keys that start with \<^verbatim>\<open>$$ID\<close> are refused.
\<close>

definition sample_key_rule :: "string \<Rightarrow> bool" where
  "sample_key_rule key = (take 4 key \<noteq> ''$$ID'')"

text \<open>
  The class of the specification's scenario:
  \<^verbatim>\<open>class Counter(metaclass=MetaSessionState): count: int\<close> in a module \<^verbatim>\<open>app\<close>.
\<close>

definition Counter :: pyclass where
  "Counter =
     meta_new ''Counter'' []
       \<lparr>cb_module = ''app'', cb_annotations = Some [''count''], cb_attrs = []\<rparr>"

definition empty_state :: pystate where
  "empty_state = \<lparr>session = Map.empty, heap = []\<rparr>"

text \<open>The state after \<^verbatim>\<open>Counter(instance_key="a")\<close> in the empty state.\<close>

definition counter_a_state :: pystate where
  "counter_a_state =
     \<lparr>session = [''app_Counter_a'' \<mapsto> PObj 0],
      heap = [\<lparr>obj_class = Counter, obj_dict = [''__instance_key__'' \<mapsto> PStr ''app_Counter_a'']\<rparr>]\<rparr>"

text \<open>The state after \<^verbatim>\<open>Counter(instance_key="a")\<close> and then \<^verbatim>\<open>Counter(instance_key="b")\<close>.\<close>

definition counter_ab_state :: pystate where
  "counter_ab_state =
     \<lparr>session = [''app_Counter_a'' \<mapsto> PObj 0, ''app_Counter_b'' \<mapsto> PObj 1],
      heap = [\<lparr>obj_class = Counter, obj_dict = [''__instance_key__'' \<mapsto> PStr ''app_Counter_a'']\<rparr>,
              \<lparr>obj_class = Counter, obj_dict = [''__instance_key__'' \<mapsto> PStr ''app_Counter_b'']\<rparr>]\<rparr>"

text \<open>The state after \<^verbatim>\<open>a.count = b\<close> for the two instances, and after a read of \<^verbatim>\<open>a.count\<close>.\<close>

definition linked_ab_state :: pystate where
  "linked_ab_state =
     \<lparr>session = [''app_Counter_a'' \<mapsto> PObj 0, ''app_Counter_b'' \<mapsto> PObj 1,
                 ''app_Counter_a.count'' \<mapsto> PObj 1],
      heap = [\<lparr>obj_class = Counter,
               obj_dict = [''__instance_key__'' \<mapsto> PStr ''app_Counter_a'',
                 ''count'' \<mapsto> PWrapper (PObj 1) ''app_Counter_a.count'' ''count'' 0]\<rparr>,
              \<lparr>obj_class = Counter, obj_dict = [''__instance_key__'' \<mapsto> PStr ''app_Counter_b'']\<rparr>]\<rparr>"

text \<open>
  An initializer of user code, \<^verbatim>\<open>def __init__(self): self.count = self\<close>, with the key rule
  of the examples, and the states after \<^verbatim>\<open>Counter(instance_key="a")\<close> and then
  \<^verbatim>\<open>Counter(instance_key="b")\<close> for a \<^verbatim>\<open>Counter\<close> with this initializer.
\<close>

definition link_init :: initializer where
  "link_init inst args kwargs st = obj_setattr sample_key_rule inst ''count'' (PObj inst) st"

definition selfref_a_state :: pystate where
  "selfref_a_state =
     \<lparr>session = [''app_Counter_a.count'' \<mapsto> PObj 0, ''app_Counter_a'' \<mapsto> PObj 0],
      heap = [\<lparr>obj_class = Counter,
               obj_dict = [''__instance_key__'' \<mapsto> PStr ''app_Counter_a'',
                 ''count'' \<mapsto> PWrapper (PObj 0) ''app_Counter_a.count'' ''count'' 0]\<rparr>]\<rparr>"

definition selfref_ab_state :: pystate where
  "selfref_ab_state =
     \<lparr>session = [''app_Counter_a.count'' \<mapsto> PObj 0, ''app_Counter_a'' \<mapsto> PObj 0,
                 ''app_Counter_b.count'' \<mapsto> PObj 1, ''app_Counter_b'' \<mapsto> PObj 1],
      heap = [\<lparr>obj_class = Counter,
               obj_dict = [''__instance_key__'' \<mapsto> PStr ''app_Counter_a'',
                 ''count'' \<mapsto> PWrapper (PObj 0) ''app_Counter_a.count'' ''count'' 0]\<rparr>,
              \<lparr>obj_class = Counter,
               obj_dict = [''__instance_key__'' \<mapsto> PStr ''app_Counter_b'',
                 ''count'' \<mapsto> PWrapper (PObj 1) ''app_Counter_b.count'' ''count'' 1]\<rparr>]\<rparr>"



text \<open>\<^verbatim>\<open>class Stepper(Counter): step: int\<close>\<close>

definition Stepper :: pyclass where
  "Stepper =
     meta_new ''Stepper'' [Counter]
       \<lparr>cb_module = ''app'', cb_annotations = Some [''step''], cb_attrs = []\<rparr>"

section \<open>Lemmas on the state\<close>

lemma session_set_instance_dict: "session (set_instance_dict a n v st) = session st"
  by (simp add: set_instance_dict_def)

lemma lookup_obj_set_instance_dict:
  "lookup_obj (set_instance_dict a n v st) b =
     (case lookup_obj st b of
        None \<Rightarrow> None
      | Some ob \<Rightarrow> Some (if b = a then ob\<lparr>obj_dict := (obj_dict ob)(n \<mapsto> v)\<rparr> else ob))"
  by (auto simp: lookup_obj_def set_instance_dict_def)

lemma meta_call_hit:
  assumes "map_of kwargs ''instance_key'' = Some ident" and "py_str ident = Some s"
    and "valid (cls_module cls @ ''_'' @ cls_name cls @ ''_'' @ s)"
    and "session st (cls_module cls @ ''_'' @ cls_name cls @ ''_'' @ s) = Some r"
  shows "meta_call valid cls init args kwargs st = (Inr r, st)"
  using assms by (simp add: meta_call_def state_getitem_def)

lemma meta_call_returns:
  assumes "map_of kwargs ''instance_key'' = Some ident" and "py_str ident = Some s"
    and "meta_call valid cls init args kwargs st = (Inr r, st')"
  shows "valid (cls_module cls @ ''_'' @ cls_name cls @ ''_'' @ s) \<and>
         session st' (cls_module cls @ ''_'' @ cls_name cls @ ''_'' @ s) = Some r"
  using assms
  by (auto simp: meta_call_def state_getitem_def Let_def
      split: if_splits option.splits prod.splits sum.splits)

lemma keeps_instance_keys_iff:
  "keeps_instance_keys s s' \<longleftrightarrow>
     (\<forall>a ob. lookup_obj s a = Some ob \<longrightarrow>
        (\<exists>ob'. lookup_obj s' a = Some ob' \<and> same_stamp ob ob'))"
proof
  assume k: "keeps_instance_keys s s'"
  show "\<forall>a ob. lookup_obj s a = Some ob \<longrightarrow>
        (\<exists>ob'. lookup_obj s' a = Some ob' \<and> same_stamp ob ob')"
  proof (intro allI impI)
    fix a ob assume "lookup_obj s a = Some ob"
    then have a: "a < length (heap s)" and ob: "ob = heap s ! a"
      by (auto simp: lookup_obj_def split: if_splits)
    from k have le: "length (heap s) \<le> length (heap s')"
      and all: "list_all2 same_stamp (heap s) (take (length (heap s)) (heap s'))"
      by (auto simp: keeps_instance_keys_def)
    from all a have "same_stamp (heap s ! a) (take (length (heap s)) (heap s') ! a)"
      by (rule list_all2_nthD)
    with a le ob show "\<exists>ob'. lookup_obj s' a = Some ob' \<and> same_stamp ob ob'"
      by (auto simp: lookup_obj_def)
  qed
next
  assume r: "\<forall>a ob. lookup_obj s a = Some ob \<longrightarrow>
        (\<exists>ob'. lookup_obj s' a = Some ob' \<and> same_stamp ob ob')"
  have le: "length (heap s) \<le> length (heap s')"
  proof (cases "heap s")
    case Nil then show ?thesis by simp
  next
    case (Cons x xs)
    then have "lookup_obj s (length xs) = Some (heap s ! length xs)"
      by (simp add: lookup_obj_def)
    with r obtain ob' where "lookup_obj s' (length xs) = Some ob'" by blast
    then have "length xs < length (heap s')"
      by (auto simp: lookup_obj_def split: if_splits)
    with Cons show ?thesis by simp
  qed
  have "list_all2 same_stamp (heap s) (take (length (heap s)) (heap s'))"
  proof (rule list_all2_all_nthI)
    show "length (heap s) = length (take (length (heap s)) (heap s'))"
      using le by simp
  next
    fix n assume n: "n < length (heap s)"
    then have "lookup_obj s n = Some (heap s ! n)" by (simp add: lookup_obj_def)
    with r obtain ob' where "lookup_obj s' n = Some ob'" "same_stamp (heap s ! n) ob'"
      by blast
    with n show "same_stamp (heap s ! n) (take (length (heap s)) (heap s') ! n)"
      by (auto simp: lookup_obj_def split: if_splits)
  qed
  with le show "keeps_instance_keys s s'" by (simp add: keeps_instance_keys_def)
qed

lemma keeps_refl: "keeps_instance_keys s s"
  by (simp add: keeps_instance_keys_iff same_stamp_def)

lemma keeps_trans:
  "keeps_instance_keys s s' \<Longrightarrow> keeps_instance_keys s' s'' \<Longrightarrow> keeps_instance_keys s s''"
  unfolding keeps_instance_keys_iff same_stamp_def by fastforce

lemma keeps_set_instance_dict:
  "n \<noteq> ''__instance_key__'' \<Longrightarrow> keeps_instance_keys s (set_instance_dict a n v s)"
  by (auto simp: keeps_instance_keys_iff lookup_obj_set_instance_dict same_stamp_def)

lemma keeps_session_update: "keeps_instance_keys s (s\<lparr>session := m\<rparr>)"
  by (simp add: keeps_instance_keys_iff lookup_obj_def same_stamp_def)

lemma keeps_stamp_new:
  "keeps_instance_keys s (set_instance_dict (length (heap s)) n v (snd (object_new cls s)))"
  by (auto simp: keeps_instance_keys_iff same_stamp_def object_new_def lookup_obj_def
      set_instance_dict_def nth_append)

lemma obj_setattr_stamp:
  assumes "obj_setattr valid a ''__instance_key__'' v st = (Inr u, st')"
    and "lookup_obj st a = Some ob"
  shows "descriptor_at (obj_class ob) ''__instance_key__'' = None \<and>
         st' = set_instance_dict a ''__instance_key__'' v st"
  using assms
  by (auto simp: obj_setattr_def sessionvar_set_def make_key_def instance_key_attr_def
      split: option.splits)

lemma instance_key_attr_same_stamp:
  "same_stamp ob ob' \<Longrightarrow> instance_key_attr ob' = instance_key_attr ob"
  by (simp add: instance_key_attr_def same_stamp_def split: option.splits)

lemma keeps_instance_key_attr:
  assumes "keeps_instance_keys s s'" and "lookup_obj s a = Some ob"
  shows "\<exists>ob'. lookup_obj s' a = Some ob' \<and> obj_class ob' = obj_class ob \<and>
           obj_dict ob' ''__instance_key__'' = obj_dict ob ''__instance_key__'' \<and>
           instance_key_attr ob' = instance_key_attr ob"
proof -
  from assms obtain ob' where "lookup_obj s' a = Some ob'" and "same_stamp ob ob'"
    by (auto simp: keeps_instance_keys_iff)
  then show ?thesis
    by (auto simp: instance_key_attr_same_stamp) (simp_all add: same_stamp_def)
qed

lemma make_key_of_attr:
  "lookup_obj s a = Some ob \<Longrightarrow> instance_key_attr ob = Inr (PStr ik) \<Longrightarrow>
     make_key f a s = Inr (ik @ ''.'' @ f)"
  by (simp add: make_key_def)

lemma meta_call_fresh:
  assumes kw: "map_of kwargs ''instance_key'' = Some ident" and str: "py_str ident = Some s"
    and absent: "session st (cls_module cls @ ''_'' @ cls_name cls @ ''_'' @ s) = None"
    and ret: "meta_call valid cls init args kwargs st = (Inr r, st')"
    and run: "init_run_keeps init cls (cls_module cls @ ''_'' @ cls_name cls @ ''_'' @ s) args kwargs st"
  shows "r = PObj (length (heap st)) \<and> keeps_instance_keys st st' \<and>
         (\<exists>ob. lookup_obj st' (length (heap st)) = Some ob \<and> obj_class ob = cls \<and>
            obj_dict ob ''__instance_key__''
              = Some (PStr (cls_module cls @ ''_'' @ cls_name cls @ ''_'' @ s)) \<and>
            instance_key_attr ob
              = Inr (PStr (cls_module cls @ ''_'' @ cls_name cls @ ''_'' @ s)))"
proof -
  define ik where "ik = cls_module cls @ ''_'' @ cls_name cls @ ''_'' @ s"
  define a where "a = length (heap st)"
  define st1 where "st1 = snd (object_new cls st)"
  define kwargs' where "kwargs' = filter (\<lambda>p. fst p \<noteq> ''instance_key'') kwargs"
  have new: "object_new cls st = (a, st1)"
    by (simp add: a_def st1_def object_new_def)
  have ob1: "lookup_obj st1 a = Some \<lparr>obj_class = cls, obj_dict = Map.empty\<rparr>"
    by (simp add: a_def st1_def object_new_def lookup_obj_def)
  from ret kw str absent new obtain u st2 u' st3
    where set: "obj_setattr valid a ''__instance_key__'' (PStr ik) st1 = (Inr u, st2)"
      and ini: "init a args kwargs' st2 = (Inr u', st3)"
      and fin: "state_getitem (st3\<lparr>session := (session st3)(ik \<mapsto> PObj a)\<rparr>) ik = (Inr r, st')"
    by (auto simp: meta_call_def Let_def ik_def kwargs'_def
        split: if_splits prod.splits sum.splits)
  from fin have r: "r = PObj a" and st': "st' = st3\<lparr>session := (session st3)(ik \<mapsto> PObj a)\<rparr>"
    by (auto simp: state_getitem_def)
  from obj_setattr_stamp [OF set ob1]
  have nd: "descriptor_at cls ''__instance_key__'' = None"
    and st2: "st2 = stamped cls ik st"
    by (simp_all add: stamped_def st1_def a_def)
  have ob2: "lookup_obj st2 a
      = Some \<lparr>obj_class = cls, obj_dict = [''__instance_key__'' \<mapsto> PStr ik]\<rparr>"
    using ob1 by (simp add: st2 stamped_def lookup_obj_set_instance_dict st1_def a_def)
  have k02: "keeps_instance_keys st st2"
    unfolding st2 stamped_def by (rule keeps_stamp_new)
  have "keeps_instance_keys st2 (snd (init a args kwargs' st2))"
    using run unfolding init_run_keeps_def st2 ik_def a_def kwargs'_def .
  with ini have k23: "keeps_instance_keys st2 st3" by simp
  have k3: "keeps_instance_keys st3 st'"
    unfolding st' by (rule keeps_session_update)
  have k2: "keeps_instance_keys st2 st'" by (rule keeps_trans [OF k23 k3])
  from keeps_instance_key_attr [OF k2 ob2] nd
  have "\<exists>ob. lookup_obj st' a = Some ob \<and> obj_class ob = cls \<and>
      obj_dict ob ''__instance_key__'' = Some (PStr ik) \<and> instance_key_attr ob = Inr (PStr ik)"
    by (auto simp: instance_key_attr_def)
  with r keeps_trans [OF k02 k2] show ?thesis
    by (simp add: ik_def a_def)
qed

lemma meta_call_in_order:
  assumes kw: "map_of kwargs ''instance_key'' = Some ident" and str: "py_str ident = Some s"
    and ord: "call_in_order init cls (cls_module cls @ ''_'' @ cls_name cls @ ''_'' @ s) args kwargs st"
    and ret: "meta_call valid cls init args kwargs st = (Inr r, st')"
  shows "keeps_instance_keys st st' \<and>
         (\<exists>a ob. r = PObj a \<and> lookup_obj st' a = Some ob \<and>
            instance_key_attr ob
              = Inr (PStr (cls_module cls @ ''_'' @ cls_name cls @ ''_'' @ s)))"
proof (cases "session st (cls_module cls @ ''_'' @ cls_name cls @ ''_'' @ s)")
  case None
  with ord have "init_run_keeps init cls (cls_module cls @ ''_'' @ cls_name cls @ ''_'' @ s)
      args kwargs st"
    by (simp add: call_in_order_def)
  from meta_call_fresh [OF kw str None ret this] show ?thesis by blast
next
  case (Some v)
  with ord have own: "holds_own_instance (cls_module cls @ ''_'' @ cls_name cls @ ''_'' @ s) st"
    by (simp add: call_in_order_def)
  from meta_call_returns [OF kw str ret]
  have valid: "valid (cls_module cls @ ''_'' @ cls_name cls @ ''_'' @ s)" by simp
  have "meta_call valid cls init args kwargs st = (Inr v, st)"
    using kw str valid Some by (rule meta_call_hit)
  with ret have "r = v" and "st' = st" by simp_all
  with own Some show ?thesis
    by (auto simp: holds_own_instance_def keeps_refl split: pyval.splits option.splits)
qed

lemma Counter_eq: "Counter = PyClass ''app'' ''Counter'' [] [(''count'', PDescr ''count'')]"
  by (simp add: Counter_def meta_new_def type_new_def class_setattr_def annotated_def)

lemma Counter_simps:
  "cls_module Counter = ''app''" "cls_name Counter = ''Counter''"
  "descriptor_at Counter ''__instance_key__'' = None"
  "descriptor_at Counter ''count'' = Some ''count''"
  "class_lookup Counter ''__instance_key__'' = None"
  by (simp_all add: Counter_eq descriptor_at_def)

lemma construct_counter_a:
  "meta_call sample_key_rule Counter object_init [] [(''instance_key'', PStr ''a'')] empty_state
     = (Inr (PObj 0), counter_a_state)"
  by (simp add: meta_call_def Counter_simps sample_key_rule_def empty_state_def object_new_def
      obj_setattr_def lookup_obj_def set_instance_dict_def object_init_def state_getitem_def
      counter_a_state_def Let_def)

lemma py_eq_unwrap: "unwrap a = unwrap b \<Longrightarrow> unwrap a \<noteq> PNaN \<Longrightarrow> py_eq a b"
  by (induction a b rule: py_eq.induct) (simp_all add: list_all2_same, (drule sym, simp)+)

lemma py_eq_nan: "unwrap a = PNaN \<or> unwrap b = PNaN \<Longrightarrow> \<not> py_eq a b"
  by (induction a b rule: py_eq.induct) auto

lemma py_eq_self: "py_eq v v \<longleftrightarrow> unwrap v \<noteq> PNaN"
  using py_eq_unwrap [of v v] py_eq_nan [of v v] by blast

lemma make_key_set_instance_dict:
  "n \<noteq> ''__instance_key__'' \<Longrightarrow> make_key f a (set_instance_dict b n w st) = make_key f a st"
  by (auto simp: make_key_def lookup_obj_set_instance_dict instance_key_attr_def
      split: option.splits)

lemma lookup_obj_session_update: "lookup_obj (st\<lparr>session := m\<rparr>) a = lookup_obj st a"
  by (simp add: lookup_obj_def)

lemma make_key_session_update: "make_key f a (st\<lparr>session := m\<rparr>) = make_key f a st"
  by (simp add: make_key_def lookup_obj_def)

lemma make_key_not_descriptor:
  assumes "make_key f a st = Inr key" and "lookup_obj st a = Some ob"
  shows "descriptor_at (obj_class ob) ''__instance_key__'' = None"
  using assms by (auto simp: make_key_def instance_key_attr_def split: option.splits)

lemma sessionvar_set_ok:
  assumes "make_key f a st = Inr key" and "valid key"
  shows "sessionvar_set valid f a v st =
     (Inr (), (set_instance_dict a f (PWrapper v key f a) st)\<lparr>session := (session st)(key \<mapsto> v)\<rparr>)"
  using assms by (simp add: sessionvar_set_def Let_def session_set_instance_dict)

lemma sessionvar_get_ok:
  assumes "make_key f a st = Inr key" and "valid key"
  shows "sessionvar_get valid f (Some a) st =
     (Inr (PWrapper (case session st key of Some v \<Rightarrow> v | None \<Rightarrow> PNone) key f a),
      set_instance_dict a f (PWrapper (case session st key of Some v \<Rightarrow> v | None \<Rightarrow> PNone) key f a) st)"
  using assms by (simp add: sessionvar_get_def Let_def)

lemma counter_a_object:
  "lookup_obj counter_a_state 0
     = Some \<lparr>obj_class = Counter, obj_dict = [''__instance_key__'' \<mapsto> PStr ''app_Counter_a'']\<rparr>"
  by (simp add: counter_a_state_def lookup_obj_def)

lemma counter_a_make_key:
  "make_key ''count'' 0 counter_a_state = Inr ''app_Counter_a.count''"
  by (simp add: make_key_def counter_a_object instance_key_attr_def Counter_simps)

lemma counter_a_unwritten: "session counter_a_state ''app_Counter_a.count'' = None"
  by (simp add: counter_a_state_def)

lemma class_setattr_sel:
  "cls_module (class_setattr cls n v) = cls_module cls"
  "cls_name (class_setattr cls n v) = cls_name cls"
  "cls_bases (class_setattr cls n v) = cls_bases cls"
  "map_of (cls_dict (class_setattr cls n v)) = (map_of (cls_dict cls))(n \<mapsto> v)"
  by (simp_all add: class_setattr_def update_conv')

lemma foldl_class_setattr:
  "cls_module (foldl (\<lambda>c n. class_setattr c n (PDescr n)) cls names) = cls_module cls \<and>
   cls_name (foldl (\<lambda>c n. class_setattr c n (PDescr n)) cls names) = cls_name cls \<and>
   cls_bases (foldl (\<lambda>c n. class_setattr c n (PDescr n)) cls names) = cls_bases cls \<and>
   map_of (cls_dict (foldl (\<lambda>c n. class_setattr c n (PDescr n)) cls names)) x =
     (if x \<in> set names then Some (PDescr x) else map_of (cls_dict cls) x)"
  by (induction names arbitrary: cls) (auto simp: class_setattr_sel)

lemma foldl_class_setattr_dict:
  "cls_dict (foldl (\<lambda>c n. class_setattr c n (PDescr n)) cls names) =
     foldl (\<lambda>d n. AList.update n (PDescr n) d) (cls_dict cls) names"
  by (induction names arbitrary: cls) (auto simp: class_setattr_def)

lemma meta_new_sel:
  "cls_module (meta_new name bases body) = cb_module body"
  "cls_name (meta_new name bases body) = name"
  "cls_bases (meta_new name bases body) = bases"
  "map_of (cls_dict (meta_new name bases body)) x =
     (if x \<in> set (annotated body) then Some (PDescr x) else map_of (cb_attrs body) x)"
  by (simp_all add: meta_new_def foldl_class_setattr type_new_def)

lemma class_lookup_own:
  "class_lookup cls x =
     (case map_of (cls_dict cls) x of Some v \<Rightarrow> Some v | None \<Rightarrow> bases_lookup (cls_bases cls) x)"
  by (cases cls) (simp split: option.split)

lemma descriptor_at_meta_new:
  "f \<in> set (annotated body) \<Longrightarrow> descriptor_at (meta_new name bases body) f = Some f"
  by (simp add: descriptor_at_def class_lookup_own meta_new_sel)

lemma instance_key_of_set_instance_dict:
  "n \<noteq> ''__instance_key__'' \<Longrightarrow>
     instance_key_of (set_instance_dict b n w st) a = instance_key_of st a"
  by (simp add: instance_key_of_def lookup_obj_set_instance_dict split: option.splits)

lemma instance_key_of_session_update:
  "instance_key_of (st\<lparr>session := m\<rparr>) a = instance_key_of st a"
  by (simp add: instance_key_of_def lookup_obj_def)

lemma instance_key_of_field_access:
  assumes "g \<noteq> ''__instance_key__''"
  shows "instance_key_of (snd (sessionvar_set valid g b v s)) a = instance_key_of s a"
    and "instance_key_of (snd (sessionvar_get valid g inst s)) a = instance_key_of s a"
  using assms
  by (auto simp: sessionvar_set_def sessionvar_get_def Let_def instance_key_of_session_update
      instance_key_of_set_instance_dict split: option.splits sum.splits)

lemma construct_linked:
  "meta_call sample_key_rule Counter link_init [] [(''instance_key'', PStr ''a'')] empty_state
     = (Inr (PObj 0), selfref_a_state)"
  by (simp add: meta_call_def Counter_simps sample_key_rule_def empty_state_def object_new_def
      obj_setattr_def lookup_obj_def set_instance_dict_def link_init_def state_getitem_def
      sessionvar_set_def make_key_def instance_key_attr_def Let_def selfref_a_state_def)

lemma construct_linked_b:
  "meta_call sample_key_rule Counter link_init [] [(''instance_key'', PStr ''b'')] selfref_a_state
     = (Inr (PObj 1), selfref_ab_state)"
  by (simp add: meta_call_def Counter_simps sample_key_rule_def object_new_def
      obj_setattr_def lookup_obj_def set_instance_dict_def link_init_def state_getitem_def
      sessionvar_set_def make_key_def instance_key_attr_def Let_def selfref_a_state_def
      selfref_ab_state_def)

lemma construct_counter_b:
  "meta_call sample_key_rule Counter object_init [] [(''instance_key'', PStr ''b'')] counter_a_state
     = (Inr (PObj 1), counter_ab_state)"
  by (simp add: meta_call_def Counter_simps sample_key_rule_def counter_a_state_def object_new_def
      obj_setattr_def lookup_obj_def set_instance_dict_def object_init_def state_getitem_def
      counter_ab_state_def Let_def)

lemma empty_state_session: "session empty_state key = None"
  by (simp add: empty_state_def)

lemma example_heaps:
  "heap empty_state = []" "length (heap counter_a_state) = Suc 0"
  by (simp_all add: empty_state_def counter_a_state_def)

lemma object_init_run_keeps: "init_run_keeps object_init cls ik args kwargs st"
  by (simp add: init_run_keeps_def object_init_def keeps_refl)

lemma link_init_runs:
  "init_run_keeps link_init Counter ''app_Counter_a'' [] [(''instance_key'', PStr ''a'')] empty_state"
  "init_run_keeps link_init Counter ''app_Counter_b'' [] [(''instance_key'', PStr ''b'')]
     selfref_a_state"
  by (simp_all add: init_run_keeps_def stamped_def link_init_def object_new_def
      empty_state_def selfref_a_state_def obj_setattr_def lookup_obj_def Counter_simps
      sessionvar_set_def make_key_def instance_key_attr_def sample_key_rule_def Let_def
      set_instance_dict_def keeps_instance_keys_def same_stamp_def)

lemma example_calls_in_order:
  "call_in_order link_init Counter ''app_Counter_a'' [] [(''instance_key'', PStr ''a'')] empty_state"
  "call_in_order link_init Counter ''app_Counter_b'' [] [(''instance_key'', PStr ''b'')]
     selfref_a_state"
  "call_in_order object_init Counter ''app_Counter_a'' [] [(''instance_key'', PStr ''a'')]
     counter_ab_state"
  "call_in_order object_init Counter ''app_Counter_b'' [] [(''instance_key'', PStr ''b'')]
     counter_ab_state"
  by (simp_all add: call_in_order_def link_init_runs empty_state_session)
    (simp_all add: selfref_a_state_def counter_ab_state_def holds_own_instance_def
      lookup_obj_def instance_key_attr_def Counter_simps)

lemma rerun_counter_ab:
  "meta_call sample_key_rule Counter object_init [] [(''instance_key'', PStr ''a'')]
     counter_ab_state = (Inr (PObj 0), counter_ab_state)"
  "meta_call sample_key_rule Counter object_init [] [(''instance_key'', PStr ''b'')]
     counter_ab_state = (Inr (PObj 1), counter_ab_state)"
  by (simp_all add: meta_call_def Counter_simps sample_key_rule_def counter_ab_state_def
      state_getitem_def Let_def)

lemma Gauge_body:
  "annotated \<lparr>cb_module = ''app'', cb_annotations = Some [''level''],
      cb_attrs = [(''unit'', PStr ''bar''), (''level'', PInt 0)]\<rparr> = [''level'']"
  "annotated \<lparr>cb_module = ''app'', cb_annotations = Some [''step''], cb_attrs = []\<rparr> = [''step'']"
  by (simp_all add: annotated_def)


section \<open>Construction without the reserved keyword\<close>

text \<open>
  C4. A call whose keyword arguments have no \<^verbatim>\<open>instance_key\<close> raises \<^verbatim>\<open>KeyError\<close> and leaves
  the whole state, the session store included, as it was: no object is allocated and
  nothing is stored.
\<close>

theorem meta_call_without_instance_key:
  "map_of kwargs ''instance_key'' = None \<Longrightarrow>
     meta_call valid cls init args kwargs st = (Inl KeyError, st)"
  by (simp add: meta_call_def)

theorem meta_call_without_instance_key_witness:
  "map_of [(''start'', PInt 1)] ''instance_key'' = None \<and>
   meta_call sample_key_rule Counter object_init [] [(''start'', PInt 1)] empty_state
     = (Inl KeyError, empty_state)"
  using meta_call_without_instance_key
    [of "[(''start'', PInt 1)]" sample_key_rule Counter object_init "[]" empty_state]
  by simp

section \<open>Construction with the same identifier\<close>

text \<open>
  C1. When a call with identifier \<open>k\<close> has returned \<open>r\<close>, a second call with the same
  identifier returns the same \<open>r\<close> (for an instance, the same address), whatever its
  other arguments are, and leaves the whole state as it was: the initializer is not run
  and no field value changes.
\<close>

theorem meta_call_twice:
  assumes "map_of kwargs ''instance_key'' = Some (PStr k)"
    and "map_of kwargs_again ''instance_key'' = Some (PStr k)"
    and "meta_call valid cls init args kwargs st = (Inr r, st')"
  shows "meta_call valid cls init_again args_again kwargs_again st' = (Inr r, st')"
proof -
  have "py_str (PStr k) = Some k" by simp
  from meta_call_returns [OF assms(1) this assms(3)]
  show ?thesis
    using assms(2) by (intro meta_call_hit [where s = k]) auto
qed

theorem meta_call_twice_witness:
  "map_of [(''instance_key'', PStr ''a'')] ''instance_key'' = Some (PStr ''a'') \<and>
   map_of [(''count'', PInt 9), (''instance_key'', PStr ''a'')] ''instance_key'' = Some (PStr ''a'') \<and>
   meta_call sample_key_rule Counter object_init [] [(''instance_key'', PStr ''a'')] empty_state
     = (Inr (PObj 0), counter_a_state) \<and>
   meta_call sample_key_rule Counter object_init [PInt 5]
       [(''count'', PInt 9), (''instance_key'', PStr ''a'')] counter_a_state
     = (Inr (PObj 0), counter_a_state)"
  using meta_call_twice [where kwargs = "[(''instance_key'', PStr ''a'')]"
      and kwargs_again = "[(''count'', PInt 9), (''instance_key'', PStr ''a'')]"
      and k = "''a''" and init_again = object_init and args_again = "[PInt 5]",
      OF _ _ construct_counter_a]
    construct_counter_a
  by simp

section \<open>Reading and writing a field\<close>

text \<open>
  C9. \<^verbatim>\<open>SessionVar.__get__\<close> never assigns to the session store: after a read, through the
  descriptor or through attribute access on the instance, the store maps every key to
  what it did before, whatever the outcome of the read. In particular a key that was
  absent stays absent. (The wrapper is cached in the instance dictionary, which is part
  of the heap.)
\<close>

theorem sessionvar_get_session_unchanged:
  "session (snd (sessionvar_get valid name instance st)) = session st \<and>
   session (snd (obj_getattr valid inst item st)) = session st"
  by (auto simp: sessionvar_get_def obj_getattr_def Let_def session_set_instance_dict
      split: option.splits sum.splits)

text \<open>
  C6. Reading an annotated field of an instance that carries an instance key, where the
  field key is valid and absent from the session store, does not raise: it returns a
  wrapper around \<^verbatim>\<open>None\<close> with the field key, and caches that wrapper on the instance.
\<close>

theorem read_unwritten_field:
  assumes "lookup_obj st a = Some ob" and "descriptor_at (obj_class ob) f = Some f"
    and "make_key f a st = Inr key" and "valid key" and "session st key = None"
  shows "obj_getattr valid a f st =
     (Inr (PWrapper PNone key f a), set_instance_dict a f (PWrapper PNone key f a) st)"
  using assms by (simp add: obj_getattr_def sessionvar_get_ok)

theorem read_unwritten_field_witness:
  "lookup_obj counter_a_state 0
     = Some \<lparr>obj_class = Counter, obj_dict = [''__instance_key__'' \<mapsto> PStr ''app_Counter_a'']\<rparr> \<and>
   descriptor_at Counter ''count'' = Some ''count'' \<and>
   make_key ''count'' 0 counter_a_state = Inr ''app_Counter_a.count'' \<and>
   sample_key_rule ''app_Counter_a.count'' \<and>
   session counter_a_state ''app_Counter_a.count'' = None \<and>
   obj_getattr sample_key_rule 0 ''count'' counter_a_state =
     (Inr (PWrapper PNone ''app_Counter_a.count'' ''count'' 0),
      set_instance_dict 0 ''count'' (PWrapper PNone ''app_Counter_a.count'' ''count'' 0)
        counter_a_state)"
  using read_unwritten_field [where valid = sample_key_rule, OF counter_a_object _
      counter_a_make_key _ counter_a_unwritten]
  by (simp add: counter_a_object counter_a_make_key counter_a_unwritten Counter_simps
      sample_key_rule_def)

text \<open>
  C2 does not hold for every value and every attribute. \<^verbatim>\<open>float("nan")\<close> is not equal to
  itself and \<^verbatim>\<open>_Wrapper.__eq__\<close> returns \<^verbatim>\<open>self._value == other\<close>: the wrapper read back after
  NaN was written does not compare equal to it. And \<^verbatim>\<open>key\<close> is the wrapper's own property:
  around an instance \<^verbatim>\<open>b\<close> that has an attribute \<^verbatim>\<open>key\<close> of its own, \<^verbatim>\<open>key\<close> reads as the
  field key and not as \<^verbatim>\<open>b.key\<close>.
\<close>

theorem write_then_read_nan:
  "fst (obj_setattr sample_key_rule 0 ''count'' PNaN counter_a_state) = Inr () \<and>
   fst (obj_getattr sample_key_rule 0 ''count''
          (snd (obj_setattr sample_key_rule 0 ''count'' PNaN counter_a_state)))
     = Inr (PWrapper PNaN ''app_Counter_a.count'' ''count'' 0) \<and>
   \<not> py_eq (PWrapper PNaN ''app_Counter_a.count'' ''count'' 0) PNaN \<and>
   fst (py_getattr sample_key_rule (PObj 1) ''key''
          (set_instance_dict 1 ''key'' (PStr ''other'') linked_ab_state)) = Inr (PStr ''other'') \<and>
   fst (py_getattr sample_key_rule (PWrapper (PObj 1) ''app_Counter_a.count'' ''count'' 0) ''key''
          (set_instance_dict 1 ''key'' (PStr ''other'') linked_ab_state))
     = Inr (PStr ''app_Counter_a.count'')"
  by (simp add: obj_setattr_def obj_getattr_def lookup_obj_def counter_a_state_def
      linked_ab_state_def Counter_simps Counter_eq descriptor_at_def set_instance_dict_def
      sessionvar_set_def sessionvar_get_def make_key_def instance_key_attr_def
      sample_key_rule_def Let_def)

text \<open>
  C2, amended. Writing \<open>v\<close> to an annotated field of an instance and reading the field
  returns a wrapper of \<open>v\<close> under the field key. The wrapper compares with any value as
  \<open>v\<close> does, so it compares equal to \<open>v\<close> exactly when \<open>v\<close> compares equal to itself, which
  every value of the model does but NaN. Its length, its iteration and its items are
  those of \<open>v\<close>, and so are its attributes for the names that the ordinary lookup does not
  find on the wrapper itself (its \<^verbatim>\<open>key\<close>, its four fields and the names of its class).
\<close>

theorem write_then_read:
  assumes "lookup_obj st a = Some ob" and "descriptor_at (obj_class ob) f = Some f"
    and "make_key f a st = Inr key" and "valid key"
  shows "fst (obj_setattr valid a f v st) = Inr () \<and>
     fst (obj_getattr valid a f (snd (obj_setattr valid a f v st))) = Inr (PWrapper v key f a) \<and>
     (\<forall>other. py_eq (PWrapper v key f a) other = py_eq v other) \<and>
     (py_eq (PWrapper v key f a) v \<longleftrightarrow> unwrap v \<noteq> PNaN) \<and>
     py_len (PWrapper v key f a) = py_len v \<and>
     py_iter (PWrapper v key f a) = py_iter v \<and>
     (\<forall>item. py_getitem (PWrapper v key f a) item = py_getitem v item) \<and>
     (\<forall>item s. item \<notin> set (''key'' # wrapper_internal @ wrapper_class_names) \<longrightarrow>
        py_getattr valid (PWrapper v key f a) item s = py_getattr valid v item s)"
proof -
  define w where "w = PWrapper v key f a"
  define st1 where "st1 = (set_instance_dict a f w st)\<lparr>session := (session st)(key \<mapsto> v)\<rparr>"
  from make_key_not_descriptor [OF assms(3,1)] assms(2)
  have f: "f \<noteq> ''__instance_key__''" by auto
  have set: "obj_setattr valid a f v st = (Inr (), st1)"
    using assms by (simp add: obj_setattr_def sessionvar_set_ok st1_def w_def)
  have ob1: "lookup_obj st1 a = Some (ob\<lparr>obj_dict := (obj_dict ob)(f \<mapsto> w)\<rparr>)"
    using assms(1) by (simp add: st1_def lookup_obj_session_update lookup_obj_set_instance_dict)
  have mk1: "make_key f a st1 = Inr key"
    using assms(3) f by (simp add: st1_def make_key_session_update make_key_set_instance_dict)
  have "session st1 key = Some v" by (simp add: st1_def)
  with ob1 mk1 assms(2,4) have get: "fst (obj_getattr valid a f st1) = Inr w"
    by (simp add: obj_getattr_def sessionvar_get_ok w_def)
  have fwd: "\<forall>item s. item \<notin> set (''key'' # wrapper_internal @ wrapper_class_names) \<longrightarrow>
        py_getattr valid w item s = py_getattr valid v item s"
    by (simp add: w_def wrapper_internal_def)
  have "py_eq w v \<longleftrightarrow> unwrap v \<noteq> PNaN" by (simp add: w_def py_eq_self)
  with set get fwd show ?thesis by (simp add: w_def)
qed

theorem write_then_read_witness:
  "lookup_obj counter_a_state 0
     = Some \<lparr>obj_class = Counter, obj_dict = [''__instance_key__'' \<mapsto> PStr ''app_Counter_a'']\<rparr> \<and>
   descriptor_at Counter ''count'' = Some ''count'' \<and>
   make_key ''count'' 0 counter_a_state = Inr ''app_Counter_a.count'' \<and>
   sample_key_rule ''app_Counter_a.count'' \<and>
   fst (obj_setattr sample_key_rule 0 ''count'' (PList [PInt 1, PInt 2]) counter_a_state) = Inr () \<and>
   fst (obj_getattr sample_key_rule 0 ''count''
          (snd (obj_setattr sample_key_rule 0 ''count'' (PList [PInt 1, PInt 2]) counter_a_state)))
     = Inr (PWrapper (PList [PInt 1, PInt 2]) ''app_Counter_a.count'' ''count'' 0) \<and>
   py_eq (PWrapper (PList [PInt 1, PInt 2]) ''app_Counter_a.count'' ''count'' 0)
     (PList [PInt 1, PInt 2]) \<and>
   \<not> py_eq (PWrapper (PList [PInt 1, PInt 2]) ''app_Counter_a.count'' ''count'' 0)
     (PList [PInt 1]) \<and>
   py_len (PWrapper (PList [PInt 1, PInt 2]) ''app_Counter_a.count'' ''count'' 0) = Inr 2 \<and>
   py_iter (PWrapper (PList [PInt 1, PInt 2]) ''app_Counter_a.count'' ''count'' 0)
     = Inr [PInt 1, PInt 2] \<and>
   py_getitem (PWrapper (PList [PInt 1, PInt 2]) ''app_Counter_a.count'' ''count'' 0) (PInt (- 1))
     = Inr (PInt 2) \<and>
   py_getattr sample_key_rule (PWrapper (PInt 7) ''app_Counter_a.count'' ''count'' 0)
       ''real'' counter_a_state
     = (Inr (PInt 7), counter_a_state) \<and>
   py_getattr sample_key_rule (PWrapper (PObj 0) ''app_Counter_a.count'' ''count'' 0)
       ''__instance_key__'' counter_a_state
     = (Inr (PStr ''app_Counter_a''), counter_a_state)"
  using write_then_read [where valid = sample_key_rule and v = "PList [PInt 1, PInt 2]",
      OF counter_a_object _ counter_a_make_key]
    write_then_read [where valid = sample_key_rule and v = "PInt 7",
      OF counter_a_object _ counter_a_make_key]
    write_then_read [where valid = sample_key_rule and v = "PObj 0",
      OF counter_a_object _ counter_a_make_key]
  by (simp add: counter_a_object counter_a_make_key Counter_simps sample_key_rule_def
      seq_at_def obj_getattr_def wrapper_internal_def wrapper_class_names_def)

section \<open>The instance key and the field keys\<close>

text \<open>
  C5 does not hold as stated: \<^verbatim>\<open>__instance_key__\<close> is an ordinary attribute of the instance.
  An assignment to it, on the instance or through a wrapper around the instance (whose
  \<^verbatim>\<open>__setattr__\<close> passes it on), rewrites it, and the field keys follow.
\<close>

theorem instance_key_reassigned:
  "meta_call sample_key_rule Counter object_init [] [(''instance_key'', PStr ''a'')] empty_state
     = (Inr (PObj 0), counter_a_state) \<and>
   instance_key_of counter_a_state 0 = Some (PStr ''app_Counter_a'') \<and>
   fst (obj_setattr sample_key_rule 0 ''__instance_key__'' (PStr ''moved'') counter_a_state)
     = Inr () \<and>
   instance_key_of
     (snd (obj_setattr sample_key_rule 0 ''__instance_key__'' (PStr ''moved'') counter_a_state)) 0
     = Some (PStr ''moved'') \<and>
   fst (obj_getattr sample_key_rule 0 ''count''
          (snd (obj_setattr sample_key_rule 0 ''__instance_key__'' (PStr ''moved'')
                  counter_a_state)))
     = Inr (PWrapper PNone ''moved.count'' ''count'' 0) \<and>
   instance_key_of linked_ab_state 1 = Some (PStr ''app_Counter_b'') \<and>
   instance_key_of
     (snd (py_setattr sample_key_rule (PWrapper (PObj 1) ''app_Counter_a.count'' ''count'' 0)
             ''__instance_key__'' (PStr ''moved'') linked_ab_state)) 1
     = Some (PStr ''moved'')"
  by (simp add: construct_counter_a)
    (simp add: obj_setattr_def obj_getattr_def lookup_obj_def counter_a_state_def
      linked_ab_state_def Counter_simps set_instance_dict_def instance_key_of_def
      sessionvar_get_def make_key_def instance_key_attr_def sample_key_rule_def Let_def
      wrapper_internal_def)

text \<open>
  C5, amended. A call that constructs an instance for the identifier \<open>ident\<close>, where the
  run of the initializer leaves instance keys alone, returns a new object whose
  \<^verbatim>\<open>__instance_key__\<close> is the module, the class name and the identifier joined by underscores.
  Reading an annotated field \<open>f\<close> of it yields a wrapper whose \<^verbatim>\<open>key\<close> is that instance key, a
  dot and \<open>f\<close>. No read or write of a field other than \<^verbatim>\<open>__instance_key__\<close> itself changes the
  instance key of any object, and a later call with the same identifier changes nothing.
\<close>

theorem instance_key_stamped:
  assumes "map_of kwargs ''instance_key'' = Some (PStr ident)"
    and "session st (cls_module cls @ ''_'' @ cls_name cls @ ''_'' @ ident) = None"
    and "init_run_keeps init cls (cls_module cls @ ''_'' @ cls_name cls @ ''_'' @ ident)
           args kwargs st"
    and "meta_call valid cls init args kwargs st = (Inr r, st')"
    and "descriptor_at cls f = Some f"
    and "valid ((cls_module cls @ ''_'' @ cls_name cls @ ''_'' @ ident) @ ''.'' @ f)"
  shows "r = PObj (length (heap st)) \<and>
     instance_key_of st' (length (heap st))
       = Some (PStr (cls_module cls @ ''_'' @ cls_name cls @ ''_'' @ ident)) \<and>
     (\<exists>v. fst (obj_getattr valid (length (heap st)) f st')
        = Inr (PWrapper v ((cls_module cls @ ''_'' @ cls_name cls @ ''_'' @ ident) @ ''.'' @ f) f
            (length (heap st))) \<and>
       fst (py_getattr valid
          (PWrapper v ((cls_module cls @ ''_'' @ cls_name cls @ ''_'' @ ident) @ ''.'' @ f) f
            (length (heap st))) ''key'' st')
        = Inr (PStr ((cls_module cls @ ''_'' @ cls_name cls @ ''_'' @ ident) @ ''.'' @ f))) \<and>
     (\<forall>g b v s c. g \<noteq> ''__instance_key__'' \<longrightarrow>
        instance_key_of (snd (sessionvar_set valid g b v s)) c = instance_key_of s c \<and>
        instance_key_of (snd (sessionvar_get valid g (Some b) s)) c = instance_key_of s c) \<and>
     (\<forall>init' args' kwargs'. map_of kwargs' ''instance_key'' = Some (PStr ident) \<longrightarrow>
        meta_call valid cls init' args' kwargs' st' = (Inr r, st'))"
proof -
  have str: "py_str (PStr ident) = Some ident" by simp
  from meta_call_fresh [OF assms(1) str assms(2) assms(4) assms(3)]
  obtain ob where r: "r = PObj (length (heap st))"
    and ob: "lookup_obj st' (length (heap st)) = Some ob" "obj_class ob = cls"
    and dict: "obj_dict ob ''__instance_key__''
        = Some (PStr (cls_module cls @ ''_'' @ cls_name cls @ ''_'' @ ident))"
    and attr: "instance_key_attr ob
        = Inr (PStr (cls_module cls @ ''_'' @ cls_name cls @ ''_'' @ ident))"
    by auto
  from ob(1) dict have iko: "instance_key_of st' (length (heap st))
        = Some (PStr (cls_module cls @ ''_'' @ cls_name cls @ ''_'' @ ident))"
    by (simp add: instance_key_of_def)
  have mk: "make_key f (length (heap st)) st'
        = Inr ((cls_module cls @ ''_'' @ cls_name cls @ ''_'' @ ident) @ ''.'' @ f)"
    by (rule make_key_of_attr [OF ob(1) attr])
  from ob assms(5) have "obj_getattr valid (length (heap st)) f st'
      = sessionvar_get valid f (Some (length (heap st))) st'"
    by (simp add: obj_getattr_def)
  with mk assms(6) have rd: "\<exists>v. fst (obj_getattr valid (length (heap st)) f st')
        = Inr (PWrapper v ((cls_module cls @ ''_'' @ cls_name cls @ ''_'' @ ident) @ ''.'' @ f) f
            (length (heap st)))"
    by (simp add: sessionvar_get_ok)
  from meta_call_returns [OF assms(1) str assms(4)]
  have again: "\<forall>init' args' kwargs'. map_of kwargs' ''instance_key'' = Some (PStr ident) \<longrightarrow>
        meta_call valid cls init' args' kwargs' st' = (Inr r, st')"
    by (auto intro: meta_call_hit [where s = ident])
  from r iko rd again show ?thesis
    by (auto simp: instance_key_of_field_access)
qed

theorem instance_key_stamped_witness:
  "map_of [(''instance_key'', PStr ''a'')] ''instance_key'' = Some (PStr ''a'') \<and>
   session empty_state ''app_Counter_a'' = None \<and>
   init_run_keeps object_init Counter ''app_Counter_a'' [] [(''instance_key'', PStr ''a'')]
     empty_state \<and>
   meta_call sample_key_rule Counter object_init [] [(''instance_key'', PStr ''a'')] empty_state
     = (Inr (PObj 0), counter_a_state) \<and>
   descriptor_at Counter ''count'' = Some ''count'' \<and>
   sample_key_rule ''app_Counter_a.count'' \<and>
   instance_key_of counter_a_state 0 = Some (PStr ''app_Counter_a'') \<and>
   fst (obj_getattr sample_key_rule 0 ''count'' counter_a_state)
     = Inr (PWrapper PNone ''app_Counter_a.count'' ''count'' 0) \<and>
   fst (py_getattr sample_key_rule (PWrapper PNone ''app_Counter_a.count'' ''count'' 0) ''key''
          counter_a_state) = Inr (PStr ''app_Counter_a.count'') \<and>
   meta_call sample_key_rule Counter link_init [PInt 3]
       [(''count'', PInt 9), (''instance_key'', PStr ''a'')] counter_a_state
     = (Inr (PObj 0), counter_a_state)"
  using instance_key_stamped [where valid = sample_key_rule and f = "''count''"
      and ident = "''a''" and cls = Counter,
      OF _ _ object_init_run_keeps construct_counter_a]
  by (simp add: Counter_simps sample_key_rule_def empty_state_session object_init_run_keeps
      construct_counter_a counter_a_unwritten counter_a_object counter_a_make_key
      obj_getattr_def sessionvar_get_ok example_heaps instance_key_of_def)

text \<open>
  C7, as stated, fails: the instance key of the identifier \<^verbatim>\<open>a.count\<close> is the field key of
  the field \<^verbatim>\<open>count\<close> of the instance of identifier \<^verbatim>\<open>a\<close>. When that field holds the instance
  itself, the call with \<^verbatim>\<open>a.count\<close> finds the key in the store and returns the instance of
  \<^verbatim>\<open>a\<close>: two different valid identifiers, one instance.
\<close>

theorem distinct_identifiers_same_instance:
  "''a'' \<noteq> ''a.count'' \<and>
   sample_key_rule ''app_Counter_a'' \<and> sample_key_rule ''app_Counter_a.count'' \<and>
   fst (meta_call sample_key_rule Counter link_init [] [(''instance_key'', PStr ''a'')]
          empty_state) = Inr (PObj 0) \<and>
   fst (meta_call sample_key_rule Counter link_init [] [(''instance_key'', PStr ''a.count'')]
          (snd (meta_call sample_key_rule Counter link_init []
                  [(''instance_key'', PStr ''a'')] empty_state))) = Inr (PObj 0)"
  by (simp add: construct_linked)
    (simp add: meta_call_def Counter_simps sample_key_rule_def state_getitem_def Let_def
      selfref_a_state_def)

text \<open>
  C7, amended. Let the two calls, with identifiers \<open>k \<noteq> k'\<close>, each be in good order: when
  it is made, its instance key is absent from the store and the run of the initializer
  leaves instance keys alone, or the store holds under the key the instance that carries
  it. Then the calls return two different instances; the field keys of a field \<open>f\<close> of the
  two are their instance keys followed by a dot and \<open>f\<close>, and differ; and a write to \<open>f\<close> of
  one leaves what a read of \<open>f\<close> of the other returns unchanged.
\<close>

theorem distinct_identifiers_distinct_instances:
  assumes "map_of kwargs ''instance_key'' = Some (PStr k)"
    and "map_of kwargs' ''instance_key'' = Some (PStr k')"
    and "k \<noteq> k'"
    and "call_in_order init cls (cls_module cls @ ''_'' @ cls_name cls @ ''_'' @ k) args kwargs st"
    and "meta_call valid cls init args kwargs st = (Inr r, st')"
    and "call_in_order init cls (cls_module cls @ ''_'' @ cls_name cls @ ''_'' @ k') args' kwargs'
           st'"
    and "meta_call valid cls init args' kwargs' st' = (Inr r', st'')"
  shows "\<exists>a a'. r = PObj a \<and> r' = PObj a' \<and> a \<noteq> a' \<and>
     make_key f a st''
       = Inr ((cls_module cls @ ''_'' @ cls_name cls @ ''_'' @ k) @ ''.'' @ f) \<and>
     make_key f a' st''
       = Inr ((cls_module cls @ ''_'' @ cls_name cls @ ''_'' @ k') @ ''.'' @ f) \<and>
     (cls_module cls @ ''_'' @ cls_name cls @ ''_'' @ k) @ ''.'' @ f
       \<noteq> (cls_module cls @ ''_'' @ cls_name cls @ ''_'' @ k') @ ''.'' @ f \<and>
     fst (sessionvar_get valid f (Some a') (snd (sessionvar_set valid f a v st'')))
       = fst (sessionvar_get valid f (Some a') st'') \<and>
     fst (sessionvar_get valid f (Some a) (snd (sessionvar_set valid f a' v st'')))
       = fst (sessionvar_get valid f (Some a) st'')"
proof -
  define ik where "ik = cls_module cls @ ''_'' @ cls_name cls @ ''_'' @ k"
  define ik' where "ik' = cls_module cls @ ''_'' @ cls_name cls @ ''_'' @ k'"
  have str: "py_str (PStr k) = Some k" "py_str (PStr k') = Some k'" by simp_all
  from meta_call_in_order [OF assms(1) str(1) assms(4) assms(5)]
  obtain a ob where r: "r = PObj a" and ob: "lookup_obj st' a = Some ob"
    and at: "instance_key_attr ob = Inr (PStr ik)"
    by (auto simp: ik_def)
  from meta_call_in_order [OF assms(2) str(2) assms(6) assms(7)]
  obtain a' ob' where r': "r' = PObj a'" and ob': "lookup_obj st'' a' = Some ob'"
    and at': "instance_key_attr ob' = Inr (PStr ik')"
    and k12: "keeps_instance_keys st' st''"
    by (auto simp: ik'_def)
  from keeps_instance_key_attr [OF k12 ob] at
  obtain ob2 where ob2: "lookup_obj st'' a = Some ob2"
    and at2: "instance_key_attr ob2 = Inr (PStr ik)"
    by auto
  have kne: "ik \<noteq> ik'" using assms(3) by (simp add: ik_def ik'_def)
  with ob2 at2 ob' at' have ne_a: "a \<noteq> a'" by auto
  have mk: "make_key f a st'' = Inr (ik @ ''.'' @ f)"
    by (rule make_key_of_attr [OF ob2 at2])
  have mk': "make_key f a' st'' = Inr (ik' @ ''.'' @ f)"
    by (rule make_key_of_attr [OF ob' at'])
  have ne: "ik @ ''.'' @ f \<noteq> ik' @ ''.'' @ f"
    using kne by simp
  have frame: "fst (sessionvar_get valid f (Some c) (snd (sessionvar_set valid f b v st'')))
      = fst (sessionvar_get valid f (Some c) st'')"
    if "c \<noteq> b" and b: "make_key f b st'' = Inr kb" and c: "make_key f c st'' = Inr kc"
      and "kb \<noteq> kc" for b c kb kc
  proof (cases "valid kb")
    case False
    with b show ?thesis by (simp add: sessionvar_set_def)
  next
    case True
    define s1 where "s1 = (set_instance_dict b f (PWrapper v kb f b) st'')\<lparr>session := (session st'')(kb \<mapsto> v)\<rparr>"
    from b True have set: "snd (sessionvar_set valid f b v st'') = s1"
      by (simp add: sessionvar_set_ok s1_def)
    have "make_key f c s1 = make_key f c st''"
      using that(1)
      by (auto simp: s1_def make_key_def lookup_obj_session_update lookup_obj_set_instance_dict
          split: option.splits)
    with c have c1: "make_key f c s1 = Inr kc" by simp
    have "session s1 kc = session st'' kc"
      using that(4) by (simp add: s1_def)
    with c c1 show ?thesis
      by (cases "valid kc") (simp_all add: set sessionvar_get_ok, simp_all add: sessionvar_get_def)
  qed
  from ne_a have ne_a': "a' \<noteq> a" by simp
  from frame [OF ne_a' mk mk' ne] frame [OF ne_a mk' mk ne [symmetric]] r r' mk mk' ne ne_a
  show ?thesis
    unfolding ik_def ik'_def by blast
qed

theorem distinct_identifiers_distinct_instances_witness:
  "map_of [(''instance_key'', PStr ''a'')] ''instance_key'' = Some (PStr ''a'') \<and>
   map_of [(''instance_key'', PStr ''b'')] ''instance_key'' = Some (PStr ''b'') \<and>
   ''a'' \<noteq> ''b'' \<and>
   call_in_order link_init Counter ''app_Counter_a'' [] [(''instance_key'', PStr ''a'')]
     empty_state \<and>
   meta_call sample_key_rule Counter link_init [] [(''instance_key'', PStr ''a'')] empty_state
     = (Inr (PObj 0), selfref_a_state) \<and>
   call_in_order link_init Counter ''app_Counter_b'' [] [(''instance_key'', PStr ''b'')]
     selfref_a_state \<and>
   meta_call sample_key_rule Counter link_init [] [(''instance_key'', PStr ''b'')] selfref_a_state
     = (Inr (PObj 1), selfref_ab_state) \<and>
   make_key ''count'' 0 selfref_ab_state = Inr ''app_Counter_a.count'' \<and>
   make_key ''count'' 1 selfref_ab_state = Inr ''app_Counter_b.count'' \<and>
   fst (sessionvar_get sample_key_rule ''count'' (Some 1)
          (snd (sessionvar_set sample_key_rule ''count'' 0 (PInt 1) selfref_ab_state)))
     = Inr (PWrapper (PObj 1) ''app_Counter_b.count'' ''count'' 1) \<and>
   call_in_order object_init Counter ''app_Counter_a'' [] [(''instance_key'', PStr ''a'')]
     counter_ab_state \<and>
   meta_call sample_key_rule Counter object_init [] [(''instance_key'', PStr ''a'')]
     counter_ab_state = (Inr (PObj 0), counter_ab_state) \<and>
   call_in_order object_init Counter ''app_Counter_b'' [] [(''instance_key'', PStr ''b'')]
     counter_ab_state \<and>
   meta_call sample_key_rule Counter object_init [] [(''instance_key'', PStr ''b'')]
     counter_ab_state = (Inr (PObj 1), counter_ab_state) \<and>
   fst (sessionvar_get sample_key_rule ''count'' (Some 1)
          (snd (sessionvar_set sample_key_rule ''count'' 0 (PInt 1) counter_ab_state)))
     = Inr (PWrapper PNone ''app_Counter_b.count'' ''count'' 1)"
  using distinct_identifiers_distinct_instances [where valid = sample_key_rule
      and f = "''count''" and k = "''a''" and k' = "''b''" and cls = Counter and v = "PInt 1",
      OF _ _ _ _ construct_linked _ construct_linked_b]
    distinct_identifiers_distinct_instances [where valid = sample_key_rule
      and f = "''count''" and k = "''a''" and k' = "''b''" and cls = Counter and v = "PInt 1",
      OF _ _ _ _ rerun_counter_ab(1) _ rerun_counter_ab(2)]
  by (simp add: Counter_simps example_calls_in_order construct_linked construct_linked_b
      rerun_counter_ab)
    (simp add: selfref_ab_state_def counter_ab_state_def sessionvar_get_def sessionvar_set_def
      make_key_def lookup_obj_def instance_key_attr_def Counter_simps sample_key_rule_def
      set_instance_dict_def Let_def)

section \<open>Assignment to attributes of a wrapper\<close>

text \<open>
  C3. The code at the input \<^verbatim>\<open>a.count = b; a.count.key = "other"\<close> for two instances
  \<^verbatim>\<open>a\<close> and \<^verbatim>\<open>b\<close>: \<^verbatim>\<open>_Wrapper.__setattr__\<close> tests for the four underscore names only, so the
  assignment to \<^verbatim>\<open>key\<close> is passed on to the wrapped instance. It returns normally and gives
  \<^verbatim>\<open>b\<close> an attribute \<^verbatim>\<open>key\<close>, while the wrapper's \<^verbatim>\<open>key\<close> still reads as the field key. Around
  an \<^verbatim>\<open>int\<close> the same assignment raises the \<^verbatim>\<open>AttributeError\<close> of \<^verbatim>\<open>int\<close>, and an assignment to
  \<^verbatim>\<open>_key\<close> raises the wrapper's own.
\<close>

theorem wrapper_key_assignment_forwarded:
  "obj_setattr sample_key_rule 0 ''count'' (PObj 1) counter_ab_state = (Inr (), linked_ab_state) \<and>
   obj_getattr sample_key_rule 0 ''count'' linked_ab_state
     = (Inr (PWrapper (PObj 1) ''app_Counter_a.count'' ''count'' 0), linked_ab_state) \<and>
   py_setattr sample_key_rule (PWrapper (PObj 1) ''app_Counter_a.count'' ''count'' 0) ''key''
       (PStr ''other'') linked_ab_state
     = (Inr (), set_instance_dict 1 ''key'' (PStr ''other'') linked_ab_state) \<and>
   fst (py_getattr sample_key_rule (PObj 1) ''key''
          (set_instance_dict 1 ''key'' (PStr ''other'') linked_ab_state)) = Inr (PStr ''other'') \<and>
   fst (py_getattr sample_key_rule (PWrapper (PObj 1) ''app_Counter_a.count'' ''count'' 0) ''key''
          (set_instance_dict 1 ''key'' (PStr ''other'') linked_ab_state))
     = Inr (PStr ''app_Counter_a.count'') \<and>
   py_setattr sample_key_rule (PWrapper (PInt 1) ''app_Counter_a.count'' ''count'' 0) ''key''
       (PStr ''other'') linked_ab_state
     = (Inl AttributeError, linked_ab_state) \<and>
   py_setattr sample_key_rule (PWrapper (PObj 1) ''app_Counter_a.count'' ''count'' 0) ''_key''
       (PStr ''other'') linked_ab_state
     = (Inl AttributeError, linked_ab_state)"
  by (simp add: wrapper_internal_def obj_setattr_def obj_getattr_def lookup_obj_def
      counter_ab_state_def linked_ab_state_def Counter_simps Counter_eq descriptor_at_def
      set_instance_dict_def sessionvar_set_def sessionvar_get_def make_key_def
      instance_key_attr_def sample_key_rule_def Let_def)

section \<open>Class creation\<close>



text \<open>
  C10. The dictionary of the new class is the same whatever the bases are, and the bases
  are kept as they are: only the annotations of the class body become \<^verbatim>\<open>SessionVar\<close>s. A
  name that the class body neither annotates nor binds gets no entry in the new class and
  is resolved in the bases, where an annotated field of a base built by the metaclass
  is still that base's \<^verbatim>\<open>SessionVar\<close>.
\<close>

theorem meta_new_ignores_bases:
  assumes "x \<notin> set (annotated body)" and "map_of (cb_attrs body) x = None"
  shows "cls_dict (meta_new name bases body) = cls_dict (meta_new name [] body) \<and>
         cls_bases (meta_new name bases body) = bases \<and>
         map_of (cls_dict (meta_new name bases body)) x = None \<and>
         class_lookup (meta_new name bases body) x = bases_lookup bases x"
  using assms
  by (simp add: class_lookup_own meta_new_sel)
    (simp add: meta_new_def foldl_class_setattr_dict type_new_def)

theorem meta_new_ignores_bases_witness:
  "''count'' \<notin> set [''step''] \<and> map_of ([] :: (string \<times> pyval) list) ''count'' = None \<and>
   cls_dict Stepper = [(''step'', PDescr ''step'')] \<and>
   cls_bases Stepper = [Counter] \<and>
   map_of (cls_dict Stepper) ''count'' = None \<and>
   class_lookup Stepper ''count'' = Some (PDescr ''count'')"
  using meta_new_ignores_bases [where x = "''count''" and name = "''Stepper''"
      and bases = "[Counter]"
      and body = "\<lparr>cb_module = ''app'', cb_annotations = Some [''step''], cb_attrs = []\<rparr>"]
  by (simp add: Gauge_body Stepper_def [symmetric])
    (simp add: Stepper_def meta_new_def type_new_def class_setattr_def annotated_def Counter_eq)

end
